theory Spec2Isabelle
  imports Main "HOL-Library.Word" "HOL-Library.Sublist"
begin

section \<open>The observable behaviour of play\_silence.c\<close>

text \<open>
  The program talks to three parties: the ALSA library, the C library (\<^verbatim>\<open>calloc\<close>,
  \<^verbatim>\<open>usleep\<close>, the two output streams) and the kernel, which delivers signals. Each call
  is recorded, in order, as an event of a trace; what the callee answers is taken from an
  environment, which may look at the trace so far. All theorems quantify over the
  environment.
\<close>

text \<open>The two signals \<^verbatim>\<open>setup_signals\<close> installs the handler for.\<close>

datatype signal = SIGINT | SIGTERM

text \<open>A \<^verbatim>\<open>snd_pcm_t *\<close>; the null pointer is 0.\<close>

type_synonym pcm = nat

text \<open>
  The texts written with \<^verbatim>\<open>printf\<close> and \<^verbatim>\<open>fprintf(stderr, ...)\<close>, one constructor for each
  format string, with the values of its conversions. \<^verbatim>\<open>print_usage\<close> and the banner and the
  report of \<^verbatim>\<open>init_alsa\<close> write several lines each, taken as one message.
\<close>

datatype message =
    Msg_received_signal signal
  | Err_cannot_open string int
  | Err_cannot_init_hw_params int
  | Err_cannot_set_access int
  | Err_cannot_set_format int
  | Err_cannot_set_channels int
  | Err_cannot_set_rate int
  | Err_cannot_apply_hw_params int
  | Msg_initialized string "32 word"
  | Err_cannot_allocate
  | Msg_playing
  | Warn_underrun
  | Err_cannot_recover
  | Err_too_many_attempts
  | Err_write_failed int
  | Warn_partial_write int int
  | Msg_stopped
  | Msg_cleaned_up
  | Msg_usage string
  | Msg_banner
  | Msg_terminated

datatype event =
    Stdout message
  | Stderr message
  | Install_handler signal
  | Test_running int
  | Pcm_open string int pcm
  | Hw_params_any pcm int
  | Set_access pcm int
  | Set_format pcm int
  | Set_channels pcm nat int
  | Set_rate_near pcm "32 word" int
  | Hw_params pcm int
  | Calloc int nat bool
  | Writei pcm "16 word list" int int
  | Prepare pcm int
  | Usleep nat
  | Free
  | Drain pcm
  | Close pcm

text \<open>
  The two globals, \<^verbatim>\<open>running\<close> and \<^verbatim>\<open>pcm_handle\<close>, and the trace of the calls made so
  far.
\<close>

record pstate =
  running :: int
  pcm_handle :: pcm
  trace :: "event list"

text \<open>
  What the world answers. \<^verbatim>\<open>snd_pcm_open\<close> gets the address of \<^verbatim>\<open>pcm_handle\<close>: its answer
  is the error code and the pointer it leaves there. The calls of the loop are made many
  times, so their answers depend on the trace at the call. \<open>pending_signals\<close> are the
  signals that have come in when the program reaches a point where the model lets the
  handler run (see \<open>async\<close> below), as a function of the trace at that point.
\<close>

record env =
  snd_pcm_open :: "string \<Rightarrow> int \<times> pcm"
  snd_pcm_hw_params_any :: int
  snd_pcm_hw_params_set_access :: int
  snd_pcm_hw_params_set_format :: int
  snd_pcm_hw_params_set_channels :: int
  snd_pcm_hw_params_set_rate_near :: "int \<times> 32 word"
  snd_pcm_hw_params :: int
  calloc_succeeds :: bool
  snd_pcm_writei :: "event list \<Rightarrow> int"
  snd_pcm_prepare :: "event list \<Rightarrow> int"
  pending_signals :: "event list \<Rightarrow> signal list"

definition emit :: "event \<Rightarrow> pstate \<Rightarrow> pstate" where
  "emit ev s = s\<lparr>trace := trace s @ [ev]\<rparr>"

text \<open>The state at program start: \<^verbatim>\<open>running = 1\<close>, \<^verbatim>\<open>pcm_handle = NULL\<close>.\<close>

definition initial :: pstate where
  "initial = \<lparr>running = 1, pcm_handle = 0, trace = []\<rparr>"

section \<open>Signals\<close>

definition signal_handler :: "signal \<Rightarrow> pstate \<Rightarrow> pstate" where
  "signal_handler sig s = (emit (Stdout (Msg_received_signal sig)) s)\<lparr>running := 0\<rparr>"

definition setup_signals :: "pstate \<Rightarrow> pstate" where
  "setup_signals s = emit (Install_handler SIGTERM) (emit (Install_handler SIGINT) s)"

text \<open>The handler runs once for each signal delivered.\<close>

fun deliver :: "signal list \<Rightarrow> pstate \<Rightarrow> pstate" where
  "deliver [] s = s"
| "deliver (sig # sigs) s = deliver sigs (signal_handler sig s)"

text \<open>
  The handler is asynchronous: it runs wherever the program is when a signal comes in. All
  it does is print and store 0 to \<^verbatim>\<open>running\<close>, and all the program does with \<^verbatim>\<open>running\<close> is
  test it at the top of the loop. So what a signal changes is decided by where it falls
  among the tests of \<^verbatim>\<open>running\<close> and the starts of the writes, and the model lets the
  handler run at two points of every round of the loop: before the test, and between the
  test and the call of \<^verbatim>\<open>snd_pcm_writei\<close>. The event \<open>Writei\<close> marks the start of a write. A
  signal that comes in during the write or later in the body has its handler run at the
  point before the next test; a signal that comes in before the loop, at the point before
  the first test. Every order of handler runs, tests and starts of writes that the program
  can show is thus a trace of the model; only the place of the handler's message among the
  other messages of a round is not kept. A signal that comes in after the last test of
  \<^verbatim>\<open>running\<close> changes nothing that the program does and is not traced.
\<close>

definition async :: "env \<Rightarrow> pstate \<Rightarrow> pstate" where
  "async e s = deliver (pending_signals e (trace s)) s"

section \<open>The device session\<close>

text \<open>
  \<^verbatim>\<open>init_alsa\<close>: seven library calls in a row, the first negative answer ends it with
  \<open>-1\<close> and that stage's message.
\<close>

definition init_alsa :: "env \<Rightarrow> string \<Rightarrow> pstate \<Rightarrow> int \<times> pstate" where
  "init_alsa e device_name s0 =
    (let (err, h) = snd_pcm_open e device_name;
         s = emit (Pcm_open device_name err h) (s0\<lparr>pcm_handle := h\<rparr>)
     in if err < 0 then (- 1, emit (Stderr (Err_cannot_open device_name err)) s)
     else
     let err = snd_pcm_hw_params_any e;
         s = emit (Hw_params_any (pcm_handle s) err) s
     in if err < 0 then (- 1, emit (Stderr (Err_cannot_init_hw_params err)) s)
     else
     let err = snd_pcm_hw_params_set_access e;
         s = emit (Set_access (pcm_handle s) err) s
     in if err < 0 then (- 1, emit (Stderr (Err_cannot_set_access err)) s)
     else
     let err = snd_pcm_hw_params_set_format e;
         s = emit (Set_format (pcm_handle s) err) s
     in if err < 0 then (- 1, emit (Stderr (Err_cannot_set_format err)) s)
     else
     let err = snd_pcm_hw_params_set_channels e;
         s = emit (Set_channels (pcm_handle s) 2 err) s
     in if err < 0 then (- 1, emit (Stderr (Err_cannot_set_channels err)) s)
     else
     let (err, sample_rate) = snd_pcm_hw_params_set_rate_near e;
         s = emit (Set_rate_near (pcm_handle s) 44100 err) s
     in if err < 0 then (- 1, emit (Stderr (Err_cannot_set_rate err)) s)
     else
     let err = snd_pcm_hw_params e;
         s = emit (Hw_params (pcm_handle s) err) s
     in if err < 0 then (- 1, emit (Stderr (Err_cannot_apply_hw_params err)) s)
     else (0, emit (Stdout (Msg_initialized device_name sample_rate)) s))"

text \<open>\<^verbatim>\<open>cleanup_alsa\<close>: drain, close and forget the handle, when there is one.\<close>

definition cleanup_alsa :: "pstate \<Rightarrow> pstate" where
  "cleanup_alsa s =
    (if pcm_handle s \<noteq> 0
     then emit (Stdout Msg_cleaned_up)
            ((emit (Close (pcm_handle s)) (emit (Drain (pcm_handle s)) s))\<lparr>pcm_handle := 0\<rparr>)
     else s)"

section \<open>The playback loop\<close>

definition buffer_frames :: int where
  "buffer_frames = 1024"

definition max_recovery_attempts :: int where
  "max_recovery_attempts = 3"

text \<open>The value of \<^verbatim>\<open>EPIPE\<close> in the errno.h of Linux.\<close>

definition EPIPE :: int where
  "EPIPE = 32"

text \<open>How the body of the \<^verbatim>\<open>while\<close> ends: \<^verbatim>\<open>break\<close>, or on to the next test of the condition
  (by \<^verbatim>\<open>continue\<close> or by reaching the end of the body).\<close>

datatype ctl = Continue | Break

text \<open>
  The body of the \<^verbatim>\<open>while\<close>, from the write to the closing brace. The locals it reads are
  arguments: the buffer, which it only passes on, and \<^verbatim>\<open>recovery_attempts\<close>, which it
  returns updated.
\<close>

definition loop_body :: "env \<Rightarrow> 16 word list \<Rightarrow> int \<Rightarrow> pstate \<Rightarrow> ctl \<times> int \<times> pstate" where
  "loop_body e silence_buffer recovery_attempts s0 =
    (let frames_written = snd_pcm_writei e (trace s0);
         s = emit (Writei (pcm_handle s0) silence_buffer buffer_frames frames_written) s0
     in if frames_written < 0 then
          if frames_written = - EPIPE then
            let s = emit (Stdout Warn_underrun) s;
                r = snd_pcm_prepare e (trace s);
                s = emit (Prepare (pcm_handle s) r) s
            in if r < 0 then
                 let s = emit (Stderr Err_cannot_recover) s;
                     recovery_attempts = recovery_attempts + 1
                 in if recovery_attempts \<ge> max_recovery_attempts
                    then (Break, recovery_attempts, emit (Stderr Err_too_many_attempts) s)
                    else (Continue, recovery_attempts, emit (Usleep 100000) s)
               else (Continue, 0, emit (Usleep 1000) s)
          else (Break, recovery_attempts, emit (Stderr (Err_write_failed frames_written)) s)
        else if frames_written \<noteq> buffer_frames then
          (Continue, recovery_attempts,
           emit (Usleep 1000) (emit (Stdout (Warn_partial_write frames_written buffer_frames)) s))
        else (Continue, recovery_attempts, emit (Usleep 1000) s))"

text \<open>
  The two ways out of the loop, as the specification names them: the condition found
  false (\<open>STOPPED\<close>) and \<^verbatim>\<open>break\<close> (\<open>ABORTED\<close>). The C function returns nothing, so its
  caller never sees which one it was.
\<close>

datatype loop_exit = STOPPED | ABORTED

text \<open>
  One round of the \<^verbatim>\<open>while\<close>: the handler runs for the signals that have come in, the
  condition is tested, and when it holds the handler runs for the signals that have come
  in since the test, and then the body runs, starting with the write. \<open>None\<close>: the loop goes
  on.
\<close>

definition iteration ::
  "env \<Rightarrow> 16 word list \<Rightarrow> int \<times> pstate \<Rightarrow> loop_exit option \<times> int \<times> pstate" where
  "iteration e silence_buffer st =
    (let (recovery_attempts, s0) = st;
         s1 = async e s0;
         s2 = emit (Test_running (running s1)) s1
     in if running s2 \<noteq> 0 then
          (case loop_body e silence_buffer recovery_attempts (async e s2) of
             (Break, st') \<Rightarrow> (Some ABORTED, st')
           | (Continue, st') \<Rightarrow> (None, st'))
        else (Some STOPPED, recovery_attempts, s2))"

text \<open>The \<^verbatim>\<open>while\<close> itself. It need not end: \<open>None\<close> is the run that goes on forever.\<close>

partial_function (option) while_running ::
  "env \<Rightarrow> 16 word list \<Rightarrow> int \<times> pstate \<Rightarrow> (loop_exit \<times> int \<times> pstate) option" where
  "while_running e silence_buffer st =
    (case iteration e silence_buffer st of
       (None, st') \<Rightarrow> while_running e silence_buffer st'
     | (Some x, st') \<Rightarrow> Some (x, st'))"

declare while_running.simps [code]

text \<open>
  The first \<open>n\<close> rounds of the loop, for the states a run goes through, whether it ends or
  not. After the loop has ended nothing changes any more.
\<close>

fun rounds ::
  "nat \<Rightarrow> env \<Rightarrow> 16 word list \<Rightarrow> int \<times> pstate \<Rightarrow> loop_exit option \<times> int \<times> pstate" where
  "rounds 0 e silence_buffer st = (None, st)"
| "rounds (Suc n) e silence_buffer st =
    (case iteration e silence_buffer st of
       (None, st') \<Rightarrow> rounds n e silence_buffer st'
     | (Some x, st') \<Rightarrow> (Some x, st'))"

text \<open>The memory \<^verbatim>\<open>calloc\<close> hands out: \<open>n\<close> samples of type \<^verbatim>\<open>short\<close>, all zero.\<close>

definition zeroed :: "nat \<Rightarrow> 16 word list" where
  "zeroed n = replicate n 0"

text \<open>
  \<^verbatim>\<open>play_silence_loop\<close>: \<^verbatim>\<open>calloc(buffer_frames * 2, sizeof(short))\<close> gives 2048 zeroed
  samples or fails; \<^verbatim>\<open>recovery_attempts\<close> starts at 0.
\<close>

definition play_silence_loop :: "env \<Rightarrow> pstate \<Rightarrow> pstate option" where
  "play_silence_loop e s0 =
    (let ok = calloc_succeeds e;
         s = emit (Calloc (buffer_frames * 2) 2 ok) s0
     in if \<not> ok then Some (emit (Stderr Err_cannot_allocate) s)
        else
          let silence_buffer = zeroed (nat (buffer_frames * 2));
              s = emit (Stdout Msg_playing) s
          in case while_running e silence_buffer (0, s) of
               None \<Rightarrow> None
             | Some (x, recovery_attempts, s) \<Rightarrow>
                 Some (emit (Stdout Msg_stopped) (emit Free s)))"

section \<open>The process\<close>

definition print_usage :: "string \<Rightarrow> pstate \<Rightarrow> pstate" where
  "print_usage program_name s = emit (Stdout (Msg_usage program_name)) s"

text \<open>\<^verbatim>\<open>main\<close>, from \<^verbatim>\<open>argv\<close> to the exit code. \<open>None\<close>: the process never exits.\<close>

definition main_fn :: "env \<Rightarrow> string list \<Rightarrow> (int \<times> pstate) option" where
  "main_fn e argv =
    (let argc = int (length argv) in
     if argc > 2 then Some (1, print_usage (argv ! 0) initial)
     else if argc = 2 \<and> (argv ! 1 = ''-h'' \<or> argv ! 1 = ''--help'')
     then Some (0, print_usage (argv ! 0) initial)
     else
       let device_name = (if argc = 2 then argv ! 1 else ''default'');
           s = emit (Stdout Msg_banner) initial;
           s = setup_signals s;
           (r, s) = init_alsa e device_name s
       in if r < 0 then Some (1, cleanup_alsa s)
          else
            case play_silence_loop e s of
              None \<Rightarrow> None
            | Some s \<Rightarrow> Some (0, emit (Stdout Msg_terminated) (cleanup_alsa s)))"

section \<open>Properties of traces\<close>

text \<open>
  The events the loop can add to the trace, for the handle \<open>h\<close> and the buffer \<open>b\<close> it was
  started with: the messages of the signal handler and of the loop, the test of
  \<^verbatim>\<open>running\<close>, writes of \<^verbatim>\<open>buffer_frames\<close> frames of \<open>b\<close> to \<open>h\<close>, re-primes of \<open>h\<close> and
  pauses.
\<close>

fun loop_stdout :: "message \<Rightarrow> bool" where
  "loop_stdout (Msg_received_signal sig) = True"
| "loop_stdout Warn_underrun = True"
| "loop_stdout (Warn_partial_write w k) = True"
| "loop_stdout _ = False"

fun loop_stderr :: "message \<Rightarrow> bool" where
  "loop_stderr Err_cannot_recover = True"
| "loop_stderr Err_too_many_attempts = True"
| "loop_stderr (Err_write_failed w) = True"
| "loop_stderr _ = False"

fun loop_event :: "pcm \<Rightarrow> 16 word list \<Rightarrow> event \<Rightarrow> bool" where
  "loop_event h b (Stdout m) = loop_stdout m"
| "loop_event h b (Stderr m) = loop_stderr m"
| "loop_event h b (Test_running r) = True"
| "loop_event h b (Writei h' b' k w) = (h' = h \<and> b' = b \<and> k = buffer_frames)"
| "loop_event h b (Prepare h' r) = (h' = h)"
| "loop_event h b (Usleep n) = True"
| "loop_event h b _ = False"

text \<open>
  The events that a state \<open>s'\<close> reached from \<open>s\<close> has added to the trace.
\<close>

definition new_events :: "pstate \<Rightarrow> pstate \<Rightarrow> event list" where
  "new_events s s' = drop (length (trace s)) (trace s')"





text \<open>
  A write passes silence when its buffer holds two samples for each frame asked for, all
  of them zero.
\<close>

fun silent_write :: "event \<Rightarrow> bool" where
  "silent_write (Writei h b k x) = (int (length b) = k * 2 \<and> list_all (\<lambda>sample. sample = 0) b)"
| "silent_write ev = True"

fun is_calloc :: "event \<Rightarrow> bool" where
  "is_calloc (Calloc n sz ok) = True"
| "is_calloc ev = False"

text \<open>A write passes \<open>b\<close> when \<open>b\<close> is the buffer it hands to the device.\<close>

fun passes :: "16 word list \<Rightarrow> event \<Rightarrow> bool" where
  "passes b (Writei h b' k x) = (b' = b)"
| "passes b ev = True"

text \<open>The events of the device session: open, drain, close.\<close>

fun session_event :: "event \<Rightarrow> bool" where
  "session_event (Pcm_open d err h) = True"
| "session_event (Drain h) = True"
| "session_event (Close h) = True"
| "session_event ev = False"

text \<open>The events of a round of the loop: the test of \<^verbatim>\<open>running\<close> and the write.\<close>

fun is_loop_step :: "event \<Rightarrow> bool" where
  "is_loop_step (Test_running r) = True"
| "is_loop_step (Writei h b k x) = True"
| "is_loop_step ev = False"

text \<open>
  The state in which \<^verbatim>\<open>main\<close> calls \<^verbatim>\<open>init_alsa\<close>, and the state in which
  \<^verbatim>\<open>play_silence_loop\<close> enters the loop from \<open>s\<close>.
\<close>

definition entry :: pstate where
  "entry = setup_signals (emit (Stdout Msg_banner) initial)"

definition playing :: "pstate \<Rightarrow> pstate" where
  "playing s = emit (Stdout Msg_playing) (emit (Calloc (buffer_frames * 2) 2 True) s)"

text \<open>
  \<^verbatim>\<open>play_silence_loop\<close> cut off after \<open>n\<close> rounds of its loop: the same steps, with the first
  \<open>n\<close> rounds in the place of the whole \<^verbatim>\<open>while\<close>. The flag tells whether the call has
  returned by then. This gives the states of a call that never returns, which is what the
  program does as long as the writes succeed and no signal comes in.
\<close>

definition play_silence_upto :: "nat \<Rightarrow> env \<Rightarrow> pstate \<Rightarrow> bool \<times> pstate" where
  "play_silence_upto n e s0 =
    (let ok = calloc_succeeds e;
         s = emit (Calloc (buffer_frames * 2) 2 ok) s0
     in if \<not> ok then (True, emit (Stderr Err_cannot_allocate) s)
        else
          let silence_buffer = zeroed (nat (buffer_frames * 2));
              s = emit (Stdout Msg_playing) s
          in case rounds n e silence_buffer (0, s) of
               (None, recovery_attempts, s) \<Rightarrow> (False, s)
             | (Some x, recovery_attempts, s) \<Rightarrow>
                 (True, emit (Stdout Msg_stopped) (emit Free s)))"

section \<open>Some worlds to run the program in\<close>

text \<open>
  A world in which the device opens as \<open>opened\<close> says, every step of the configuration
  succeeds and the rate is granted as asked, with the given answers for the allocation, the
  writes, the re-primes and the signals.
\<close>

definition world ::
  "int \<times> pcm \<Rightarrow> bool \<Rightarrow> (event list \<Rightarrow> int) \<Rightarrow> (event list \<Rightarrow> int) \<Rightarrow> (event list \<Rightarrow> signal list) \<Rightarrow> env" where
  "world opened alloc w p sg =
    \<lparr>snd_pcm_open = (\<lambda>d. opened),
     snd_pcm_hw_params_any = 0,
     snd_pcm_hw_params_set_access = 0,
     snd_pcm_hw_params_set_format = 0,
     snd_pcm_hw_params_set_channels = 0,
     snd_pcm_hw_params_set_rate_near = (0, 44100),
     snd_pcm_hw_params = 0,
     calloc_succeeds = alloc,
     snd_pcm_writei = w,
     snd_pcm_prepare = p,
     pending_signals = sg\<rparr>"

definition always :: "'a \<Rightarrow> event list \<Rightarrow> 'a" where
  "always x tr = x"

text \<open>Signal SIGINT comes in once a round has got as far as its 1 ms pause.\<close>

definition signal_after_write :: "event list \<Rightarrow> signal list" where
  "signal_after_write tr = (if Usleep 1000 \<in> set tr then [SIGINT] else [])"


text \<open>Writes underrun until the loop has paused 100 ms once; then they take all frames.\<close>

definition recovers_late :: "event list \<Rightarrow> int" where
  "recovers_late tr = (if Usleep 100000 \<in> set tr then 1024 else - 32)"

text \<open>
  \<open>stuck\<close>: every write underruns, every re-prime fails. \<open>halting\<close>: every write takes all
  frames, a signal ends the run after the first. \<open>flaky\<close>: the first write underruns and the
  re-prime fails, later writes take all frames. \<open>no_device\<close>: the open fails with
  \<open>-2\<close> and leaves the handle null. \<open>no_memory\<close>: \<^verbatim>\<open>calloc\<close> fails. \<open>interrupting\<close>: every
  write takes all frames, a signal comes in between the first test and the first write.
  \<open>endless\<close>: every write takes all frames and no signal ever comes in.
\<close>

definition stuck :: env where
  "stuck = world (0, 7) True (always (- 32)) (always (- 1)) (always [])"

definition halting :: env where
  "halting = world (0, 7) True (always 1024) (always 0) signal_after_write"

definition flaky :: env where
  "flaky = world (0, 7) True recovers_late (always (- 1)) (always [])"

definition no_device :: env where
  "no_device = world (- 2, 0) True (always 1024) (always 0) (always [])"

definition no_memory :: env where
  "no_memory = world (0, 7) False (always 1024) (always 0) (always [])"


definition endless :: env where
  "endless = world (0, 7) True (always 1024) (always 0) (always [])"

text \<open>
  States: \<open>ready\<close>, the device open as handle 7 and nothing traced yet; \<open>configured d h\<close>,
  what \<^verbatim>\<open>init_alsa\<close> leaves in these worlds; \<open>after_write\<close>, one full round after
  \<open>ready\<close>. Events: the three rounds of \<open>stuck\<close> and the two of \<open>halting\<close>.
\<close>

definition ready :: pstate where
  "ready = \<lparr>running = 1, pcm_handle = 7, trace = []\<rparr>"

definition configured :: "string \<Rightarrow> pcm \<Rightarrow> pstate" where
  "configured d h =
     \<lparr>running = 1, pcm_handle = h,
      trace = [Stdout Msg_banner, Install_handler SIGINT, Install_handler SIGTERM,
               Pcm_open d 0 h, Hw_params_any h 0, Set_access h 0, Set_format h 0,
               Set_channels h 2 0, Set_rate_near h 44100 0, Hw_params h 0,
               Stdout (Msg_initialized d 44100)]\<rparr>"


definition three_failures :: "pcm \<Rightarrow> event list" where
  "three_failures h =
     [Test_running 1, Writei h (zeroed 2048) 1024 (- 32), Stdout Warn_underrun,
      Prepare h (- 1), Stderr Err_cannot_recover, Usleep 100000,
      Test_running 1, Writei h (zeroed 2048) 1024 (- 32), Stdout Warn_underrun,
      Prepare h (- 1), Stderr Err_cannot_recover, Usleep 100000,
      Test_running 1, Writei h (zeroed 2048) 1024 (- 32), Stdout Warn_underrun,
      Prepare h (- 1), Stderr Err_cannot_recover, Stderr Err_too_many_attempts]"

definition one_write :: "pcm \<Rightarrow> event list" where
  "one_write h =
     [Test_running 1, Writei h (zeroed 2048) 1024 1024, Usleep 1000,
      Stdout (Msg_received_signal SIGINT), Test_running 0]"

section \<open>The loop, round by round\<close>

lemma emit_simps [simp]:
  "trace (emit ev s) = trace s @ [ev]"
  "pcm_handle (emit ev s) = pcm_handle s"
  "running (emit ev s) = running s"
  by (simp_all add: emit_def)

lemma deliver_trace:
  "trace (deliver sigs s) = trace s @ map (\<lambda>sig. Stdout (Msg_received_signal sig)) sigs"
  by (induction sigs arbitrary: s) (simp_all add: signal_handler_def)

lemma deliver_pcm_handle [simp]: "pcm_handle (deliver sigs s) = pcm_handle s"
  by (induction sigs arbitrary: s) (simp_all add: signal_handler_def)

lemma deliver_running: "running (deliver sigs s) = (if sigs = [] then running s else 0)"
proof (induction sigs arbitrary: s)
  case Nil
  show ?case by simp
next
  case (Cons sig sigs)
  show ?case by (simp add: Cons.IH signal_handler_def)
qed

lemma async_simps:
  "trace (async e s) = trace s @ map (\<lambda>sig. Stdout (Msg_received_signal sig)) (pending_signals e (trace s))"
  "pcm_handle (async e s) = pcm_handle s"
  "running (async e s) = (if pending_signals e (trace s) = [] then running s else 0)"
  by (simp_all add: async_def deliver_trace deliver_running)

lemma loop_body_events:
  assumes "loop_body e b ra s = (c, ra', s')"
  shows "\<exists>evs. trace s' = trace s @ Writei (pcm_handle s) b buffer_frames (snd_pcm_writei e (trace s)) # evs
           \<and> list_all (loop_event (pcm_handle s) b) evs \<and> pcm_handle s' = pcm_handle s \<and> running s' = running s"
  using assms by (auto simp add: loop_body_def Let_def split: if_splits)

lemma iteration_events:
  assumes "iteration e b (ra, s) = (x, ra', s')"
  shows "\<exists>evs. trace s' = trace s @ evs \<and> list_all (loop_event (pcm_handle s) b) evs \<and> pcm_handle s' = pcm_handle s"
proof (cases "running (async e s) = 0")
  case True
  with assms show ?thesis
    by (auto simp add: iteration_def Let_def async_simps list_all_iff)
next
  case False
  let ?s = "async e (emit (Test_running (running (async e s))) (async e s))"
  obtain c where c: "loop_body e b ra ?s = (c, ra', s')"
    using assms False by (auto simp add: iteration_def Let_def split: prod.splits ctl.splits)
  from loop_body_events [OF c] show ?thesis
    by (auto simp add: async_simps list_all_iff)
qed

lemma rounds_events:
  "rounds n e b (ra, s) = (x, ra', s') \<Longrightarrow>
     \<exists>evs. trace s' = trace s @ evs \<and> list_all (loop_event (pcm_handle s) b) evs \<and> pcm_handle s' = pcm_handle s"
proof (induction n arbitrary: ra s)
  case 0
  then show ?case by simp
next
  case (Suc n)
  obtain y ra1 s1 where it: "iteration e b (ra, s) = (y, ra1, s1)"
    by (metis prod_cases3)
  from iteration_events [OF it] obtain evs1 where
    e1: "trace s1 = trace s @ evs1" "list_all (loop_event (pcm_handle s) b) evs1" "pcm_handle s1 = pcm_handle s"
    by blast
  show ?case
  proof (cases y)
    case None
    with Suc.prems it have "rounds n e b (ra1, s1) = (x, ra', s')" by simp
    from Suc.IH [OF this] e1 show ?thesis by auto
  next
    case (Some z)
    with Suc.prems it e1 show ?thesis by auto
  qed
qed

lemma rounds_while:
  "rounds n e b st = (Some x, st') \<Longrightarrow> while_running e b st = Some (x, st')"
proof (induction n arbitrary: st)
  case 0
  then show ?case by simp
next
  case (Suc n)
  then show ?case
    by (subst while_running.simps) (auto split: prod.splits option.splits)
qed

lemma while_rounds:
  assumes "while_running e b st = Some r"
  shows "\<exists>n. rounds n e b st = (Some (fst r), snd r)"
  using assms
proof (rule while_running.raw_induct
    [rotated, where P = "\<lambda>e b st r. \<exists>n. rounds n e b st = (Some (fst r), snd r)"])
  fix f e b st r
  assume IH: "\<And>e b st r. f e b st = Some r \<Longrightarrow> \<exists>n. rounds n e b st = (Some (fst r), snd r)"
    and body: "(case iteration e b st of (None, st') \<Rightarrow> f e b st'
                | (Some x, st') \<Rightarrow> Some (x, st')) = Some r"
  obtain y st1 where it: "iteration e b st = (y, st1)" by (cases "iteration e b st")
  show "\<exists>n. rounds n e b st = (Some (fst r), snd r)"
  proof (cases y)
    case None
    with body it have "f e b st1 = Some r" by simp
    from IH [OF this] obtain n where "rounds n e b st1 = (Some (fst r), snd r)" by blast
    with it None have "rounds (Suc n) e b st = (Some (fst r), snd r)" by simp
    then show ?thesis by blast
  next
    case (Some x)
    with body it have "rounds (Suc 0) e b st = (Some (fst r), snd r)" by auto
    then show ?thesis by blast
  qed
qed

lemma while_running_handle:
  assumes "while_running e b (ra, s) = Some (x, ra', s')"
  shows "pcm_handle s' = pcm_handle s"
proof -
  from while_rounds [OF assms] obtain n where "rounds n e b (ra, s) = (Some x, ra', s')"
    by auto
  from rounds_events [OF this] show ?thesis by blast
qed

lemma world_simps [simp]:
  "snd_pcm_open (world opened alloc w p sg) = (\<lambda>d. opened)"
  "snd_pcm_hw_params_any (world opened alloc w p sg) = 0"
  "snd_pcm_hw_params_set_access (world opened alloc w p sg) = 0"
  "snd_pcm_hw_params_set_format (world opened alloc w p sg) = 0"
  "snd_pcm_hw_params_set_channels (world opened alloc w p sg) = 0"
  "snd_pcm_hw_params_set_rate_near (world opened alloc w p sg) = (0, 44100)"
  "snd_pcm_hw_params (world opened alloc w p sg) = 0"
  "calloc_succeeds (world opened alloc w p sg) = alloc"
  "snd_pcm_writei (world opened alloc w p sg) = w"
  "snd_pcm_prepare (world opened alloc w p sg) = p"
  "pending_signals (world opened alloc w p sg) = sg"
  by (simp_all add: world_def)

lemma entry_simps [simp]:
  "trace entry = [Stdout Msg_banner, Install_handler SIGINT, Install_handler SIGTERM]"
  "pcm_handle entry = 0" "running entry = 1"
  by (simp_all add: entry_def setup_signals_def initial_def)

section \<open>The counter\<close>




section \<open>Tests and writes\<close>







section \<open>What the loop adds to the trace\<close>

lemma zeroed_silent [simp]:
  "length (zeroed n) = n" "list_all (\<lambda>sample. sample = 0) (zeroed n)"
  by (simp_all add: zeroed_def list_all_iff)

lemma loop_event_quiet:
  "loop_event h b ev \<Longrightarrow> \<not> session_event ev \<and> \<not> is_calloc ev"
  by (cases ev) simp_all

lemma loop_event_silent:
  "loop_event h (zeroed (nat (buffer_frames * 2))) ev \<Longrightarrow> silent_write ev"
  by (cases ev) (simp_all add: buffer_frames_def)

lemma loop_events_quiet:
  assumes "list_all (loop_event h b) evs"
  shows "filter session_event evs = []" and "filter is_calloc evs = []"
  using assms by (auto simp add: list_all_iff filter_empty_conv dest: loop_event_quiet)

lemma loop_events_silent:
  "list_all (loop_event h (zeroed (nat (buffer_frames * 2)))) evs \<Longrightarrow> list_all silent_write evs"
  by (auto simp add: list_all_iff dest: loop_event_silent)

lemma play_silence_loop_events:
  assumes "play_silence_loop e s = Some s'"
  shows "\<exists>evs. trace s' = trace s @ Calloc (buffer_frames * 2) 2 (calloc_succeeds e) # evs
           \<and> filter session_event evs = [] \<and> filter is_calloc evs = []
           \<and> list_all silent_write evs \<and> pcm_handle s' = pcm_handle s"
proof (cases "calloc_succeeds e")
  case False
  with assms show ?thesis
    by (auto simp add: play_silence_loop_def Let_def)
next
  case True
  let ?b = "zeroed (nat (buffer_frames * 2))"
  let ?s = "emit (Stdout Msg_playing) (emit (Calloc (buffer_frames * 2) 2 True) s)"
  from assms True obtain x ra s2 where
    w: "while_running e ?b (0, ?s) = Some (x, ra, s2)"
    and s': "s' = emit (Stdout Msg_stopped) (emit Free s2)"
    by (auto simp add: play_silence_loop_def Let_def split: option.splits)
  from while_rounds [OF w] obtain n where "rounds n e ?b (0, ?s) = (Some x, ra, s2)"
    by auto
  from rounds_events [OF this] obtain evs where
    evs: "trace s2 = trace ?s @ evs" "list_all (loop_event (pcm_handle ?s) ?b) evs"
      "pcm_handle s2 = pcm_handle ?s"
    by blast
  from evs(2) have "filter session_event evs = []" "filter is_calloc evs = []" "list_all silent_write evs"
    by (simp_all add: loop_events_quiet loop_events_silent)
  with evs(1,3) s' True show ?thesis by simp
qed

lemma loop_event_passes:
  "loop_event h b ev \<Longrightarrow> passes b ev"
  by (cases ev) simp_all

lemma loop_events_pass:
  "list_all (loop_event h b) evs \<Longrightarrow> list_all (passes b) evs"
  by (auto simp add: list_all_iff dest: loop_event_passes)

lemma play_silence_upto_events:
  assumes "play_silence_upto n e s = (returned, s')"
  shows "\<exists>evs. trace s' = trace s @ Calloc (buffer_frames * 2) 2 (calloc_succeeds e) # evs
           \<and> filter is_calloc evs = [] \<and> list_all silent_write evs
           \<and> list_all (passes (zeroed (nat (buffer_frames * 2)))) evs"
proof (cases "calloc_succeeds e")
  case False
  with assms show ?thesis
    by (auto simp add: play_silence_upto_def Let_def)
next
  case True
  let ?b = "zeroed (nat (buffer_frames * 2))"
  let ?s = "emit (Stdout Msg_playing) (emit (Calloc (buffer_frames * 2) 2 True) s)"
  obtain x ra s2 where r: "rounds n e ?b (0, ?s) = (x, ra, s2)"
    by (metis prod_cases3)
  from rounds_events [OF r] obtain evs where
    evs: "trace s2 = trace ?s @ evs" "list_all (loop_event (pcm_handle ?s) ?b) evs"
    by blast
  from evs(2) have q: "filter is_calloc evs = []" "list_all silent_write evs" "list_all (passes ?b) evs"
    by (simp_all add: loop_events_quiet loop_events_silent loop_events_pass)
  from assms True r have "s' = (case x of None \<Rightarrow> s2 | Some y \<Rightarrow> emit (Stdout Msg_stopped) (emit Free s2))"
    by (auto simp add: play_silence_upto_def Let_def split: option.splits)
  with evs(1) q True show ?thesis
    by (cases x) simp_all
qed

lemma play_silence_loop_upto:
  "play_silence_loop e s = Some s' \<longleftrightarrow> (\<exists>n. play_silence_upto n e s = (True, s'))"
proof (cases "calloc_succeeds e")
  case False
  then show ?thesis
    by (auto simp add: play_silence_loop_def play_silence_upto_def Let_def)
next
  case True
  let ?b = "zeroed (nat (buffer_frames * 2))"
  let ?s = "emit (Stdout Msg_playing) (emit (Calloc (buffer_frames * 2) 2 True) s)"
  show ?thesis
  proof
    assume "play_silence_loop e s = Some s'"
    with True obtain x ra s2 where
      w: "while_running e ?b (0, ?s) = Some (x, ra, s2)"
      and s': "s' = emit (Stdout Msg_stopped) (emit Free s2)"
      by (auto simp add: play_silence_loop_def Let_def split: option.splits)
    from while_rounds [OF w] obtain n where "rounds n e ?b (0, ?s) = (Some x, ra, s2)"
      by auto
    with True s' have "play_silence_upto n e s = (True, s')"
      by (simp add: play_silence_upto_def)
    then show "\<exists>n. play_silence_upto n e s = (True, s')" ..
  next
    assume "\<exists>n. play_silence_upto n e s = (True, s')"
    then obtain n where u: "play_silence_upto n e s = (True, s')" ..
    obtain y ra s2 where r: "rounds n e ?b (0, ?s) = (y, ra, s2)"
      by (metis prod_cases3)
    from u True r obtain x where y: "y = Some x" and s': "s' = emit (Stdout Msg_stopped) (emit Free s2)"
      by (cases y) (auto simp add: play_silence_upto_def)
    from r y have "while_running e ?b (0, ?s) = Some (x, ra, s2)"
      by (simp add: rounds_while)
    with True s' show "play_silence_loop e s = Some s'"
      by (simp add: play_silence_loop_def)
  qed
qed

section \<open>The process, case by case\<close>

lemma main_fn_unfold:
  "main_fn e argv =
    (if length argv > 2 then Some (1, print_usage (argv ! 0) initial)
     else if length argv = 2 \<and> (argv ! 1 = ''-h'' \<or> argv ! 1 = ''--help'')
     then Some (0, print_usage (argv ! 0) initial)
     else
       (case init_alsa e (if length argv = 2 then argv ! 1 else ''default'') entry of
          (r, s1) \<Rightarrow>
            if r < 0 then Some (1, cleanup_alsa s1)
            else (case play_silence_loop e s1 of
                    None \<Rightarrow> None
                  | Some s2 \<Rightarrow> Some (0, emit (Stdout Msg_terminated) (cleanup_alsa s2)))))"
  by (auto simp add: main_fn_def Let_def entry_def split: prod.splits)

lemma init_alsa_session:
  assumes "init_alsa e d s = (r, s1)"
  shows "\<exists>evs. trace s1 = trace s @ Pcm_open d (fst (snd_pcm_open e d)) (snd (snd_pcm_open e d)) # evs
           \<and> filter session_event evs = [] \<and> pcm_handle s1 = snd (snd_pcm_open e d)"
  using assms
  by (auto simp add: init_alsa_def Let_def split: prod.splits if_splits)

lemma init_alsa_open_fails:
  assumes "snd_pcm_open e d = (err, h)" and "err < 0"
  shows "init_alsa e d s =
           (- 1, s\<lparr>pcm_handle := h,
                   trace := trace s @ [Pcm_open d err h, Stderr (Err_cannot_open d err)]\<rparr>)"
  using assms by (simp add: init_alsa_def emit_def)

lemma init_alsa_no_loop_step:
  assumes "init_alsa e d s = (r, s1)"
  shows "filter is_loop_step (trace s1) = filter is_loop_step (trace s)"
  using assms
  by (auto simp add: init_alsa_def Let_def split: prod.splits if_splits)

lemma cleanup_alsa_trace:
  "trace (cleanup_alsa s) =
     trace s @ (if pcm_handle s \<noteq> 0
                then [Drain (pcm_handle s), Close (pcm_handle s), Stdout Msg_cleaned_up] else [])"
  "pcm_handle (cleanup_alsa s) = 0"
  "running (cleanup_alsa s) = running s"
  by (simp_all add: cleanup_alsa_def)

lemma main_fn_session:
  assumes "main_fn e argv = Some (code, s)"
  shows "filter session_event (trace s) = []
         \<or> (\<exists>d err h. filter session_event (trace s) =
                Pcm_open d err h # (if h \<noteq> 0 then [Drain h, Close h] else [])
              \<and> pcm_handle s = 0
              \<and> (h \<noteq> 0 \<longrightarrow> suffix ([Drain h, Close h, Stdout Msg_cleaned_up]
                                      @ (if code = 0 then [Stdout Msg_terminated] else [])) (trace s)))"
proof (cases "length argv > 2 \<or> length argv = 2 \<and> (argv ! 1 = ''-h'' \<or> argv ! 1 = ''--help'')")
  case True
  with assms have "s = print_usage (argv ! 0) initial"
    by (auto simp add: main_fn_unfold split: if_splits)
  then show ?thesis by (simp add: print_usage_def initial_def)
next
  case False
  let ?d = "if length argv = 2 then argv ! 1 else ''default''"
  obtain r s1 where i: "init_alsa e ?d entry = (r, s1)" by (cases "init_alsa e ?d entry")
  from init_alsa_session [OF i] obtain evs where
    evs: "trace s1 = trace entry @ Pcm_open ?d (fst (snd_pcm_open e ?d)) (snd (snd_pcm_open e ?d)) # evs"
      "filter session_event evs = []" "pcm_handle s1 = snd (snd_pcm_open e ?d)"
    by blast
  let ?h = "snd (snd_pcm_open e ?d)"
  show ?thesis
  proof (cases "r < 0")
    case True
    with assms False i have s: "s = cleanup_alsa s1" "code = 1"
      by (auto simp add: main_fn_unfold)
    have "filter session_event (trace s) =
            Pcm_open ?d (fst (snd_pcm_open e ?d)) ?h # (if ?h \<noteq> 0 then [Drain ?h, Close ?h] else [])"
      using s evs by (simp add: cleanup_alsa_trace)
    moreover have "pcm_handle s = 0" using s by (simp add: cleanup_alsa_trace)
    moreover have "?h \<noteq> 0 \<longrightarrow> suffix ([Drain ?h, Close ?h, Stdout Msg_cleaned_up]
                                      @ (if code = 0 then [Stdout Msg_terminated] else [])) (trace s)"
      using s evs by (simp add: cleanup_alsa_trace suffix_def)
    ultimately show ?thesis by blast
  next
    case nonneg: False
    with assms False i obtain s2 where
      p: "play_silence_loop e s1 = Some s2"
      and s: "s = emit (Stdout Msg_terminated) (cleanup_alsa s2)" "code = 0"
      by (auto simp add: main_fn_unfold split: option.splits)
    from play_silence_loop_events [OF p] obtain evs2 where
      evs2: "trace s2 = trace s1 @ Calloc (buffer_frames * 2) 2 (calloc_succeeds e) # evs2"
        "filter session_event evs2 = []" "pcm_handle s2 = pcm_handle s1"
      by blast
    have "filter session_event (trace s) =
            Pcm_open ?d (fst (snd_pcm_open e ?d)) ?h # (if ?h \<noteq> 0 then [Drain ?h, Close ?h] else [])"
      using s evs evs2 by (simp add: cleanup_alsa_trace)
    moreover have "pcm_handle s = 0" using s by (simp add: cleanup_alsa_trace)
    moreover have "?h \<noteq> 0 \<longrightarrow> suffix ([Drain ?h, Close ?h, Stdout Msg_cleaned_up]
                                      @ (if code = 0 then [Stdout Msg_terminated] else [])) (trace s)"
      using s evs evs2 by (simp add: cleanup_alsa_trace suffix_def)
    ultimately show ?thesis by blast
  qed
qed

lemma session_event_member:
  "Pcm_open d err h \<in> set tr \<Longrightarrow> Pcm_open d err h \<in> set (filter session_event tr)"
  by simp

section \<open>Runs in the worlds above\<close>

lemma init_alsa_world:
  "init_alsa (world (0, h) a w p sg) d entry = (0, configured d h)"
  by (simp add: init_alsa_def emit_def entry_def setup_signals_def initial_def configured_def)

lemma playing_simps [simp]:
  "trace (playing s) = trace s @ [Calloc 2048 2 True, Stdout Msg_playing]"
  "pcm_handle (playing s) = pcm_handle s"
  "running (playing s) = running s"
  by (simp_all add: playing_def buffer_frames_def)

lemma configured_simps [simp]:
  "pcm_handle (configured d h) = h"
  "running (configured d h) = 1"
  by (simp_all add: configured_def)

lemma stuck_rounds:
  assumes "running s = 1"
  shows "rounds (Suc (Suc (Suc 0))) stuck (zeroed 2048) (0, s) =
           (Some ABORTED, 3, s\<lparr>trace := trace s @ three_failures (pcm_handle s)\<rparr>)"
  using assms
  by (simp add: stuck_def always_def iteration_def async_def loop_body_def emit_def buffer_frames_def
      EPIPE_def max_recovery_attempts_def three_failures_def)

lemma stuck_while:
  assumes "running s = 1"
  shows "while_running stuck (zeroed 2048) (0, s) =
           Some (ABORTED, 3, s\<lparr>trace := trace s @ three_failures (pcm_handle s)\<rparr>)"
  using stuck_rounds [OF assms] by (rule rounds_while)

lemma halting_rounds:
  assumes "running s = 1" and "Usleep 1000 \<notin> set (trace s)"
  shows "rounds (Suc (Suc 0)) halting (zeroed 2048) (ra, s) =
           (Some STOPPED, ra, s\<lparr>running := 0, trace := trace s @ one_write (pcm_handle s)\<rparr>)"
  using assms
  by (simp add: halting_def always_def signal_after_write_def iteration_def async_def loop_body_def
      emit_def signal_handler_def buffer_frames_def one_write_def)

lemma halting_while:
  assumes "running s = 1" and "Usleep 1000 \<notin> set (trace s)"
  shows "while_running halting (zeroed 2048) (ra, s) =
           Some (STOPPED, ra, s\<lparr>running := 0, trace := trace s @ one_write (pcm_handle s)\<rparr>)"
  using halting_rounds [OF assms] by (rule rounds_while)

lemma stuck_init: "init_alsa stuck ''default'' entry = (0, configured ''default'' 7)"
  unfolding stuck_def by (rule init_alsa_world)

lemma halting_init: "init_alsa halting ''default'' entry = (0, configured ''default'' 7)"
  unfolding halting_def by (rule init_alsa_world)

lemma stuck_main:
  "main_fn stuck [''play_silence''] =
     Some (0,
       \<lparr>running = 1, pcm_handle = 0,
        trace = [Stdout Msg_banner, Install_handler SIGINT, Install_handler SIGTERM,
                 Pcm_open ''default'' 0 7, Hw_params_any 7 0, Set_access 7 0, Set_format 7 0,
                 Set_channels 7 2 0, Set_rate_near 7 44100 0, Hw_params 7 0,
                 Stdout (Msg_initialized ''default'' 44100),
                 Calloc 2048 2 True, Stdout Msg_playing,
                 Test_running 1, Writei 7 (zeroed 2048) 1024 (- 32), Stdout Warn_underrun,
                 Prepare 7 (- 1), Stderr Err_cannot_recover, Usleep 100000,
                 Test_running 1, Writei 7 (zeroed 2048) 1024 (- 32), Stdout Warn_underrun,
                 Prepare 7 (- 1), Stderr Err_cannot_recover, Usleep 100000,
                 Test_running 1, Writei 7 (zeroed 2048) 1024 (- 32), Stdout Warn_underrun,
                 Prepare 7 (- 1), Stderr Err_cannot_recover, Stderr Err_too_many_attempts,
                 Free, Stdout Msg_stopped, Drain 7, Close 7, Stdout Msg_cleaned_up,
                 Stdout Msg_terminated]\<rparr>)"
proof -
  have "running (playing (configured ''default'' 7)) = 1" by simp
  from stuck_while [OF this] have
    "play_silence_loop stuck (configured ''default'' 7) =
       Some (emit (Stdout Msg_stopped) (emit Free
         ((playing (configured ''default'' 7))
            \<lparr>trace := trace (playing (configured ''default'' 7)) @ three_failures 7\<rparr>)))"
    by (simp add: play_silence_loop_def playing_def buffer_frames_def stuck_def)
  with stuck_init show ?thesis
    by (simp add: main_fn_unfold configured_def cleanup_alsa_def emit_def playing_def
        buffer_frames_def three_failures_def)
qed

lemma halting_main:
  "main_fn halting [''play_silence''] =
     Some (0,
       \<lparr>running = 0, pcm_handle = 0,
        trace = [Stdout Msg_banner, Install_handler SIGINT, Install_handler SIGTERM,
                 Pcm_open ''default'' 0 7, Hw_params_any 7 0, Set_access 7 0, Set_format 7 0,
                 Set_channels 7 2 0, Set_rate_near 7 44100 0, Hw_params 7 0,
                 Stdout (Msg_initialized ''default'' 44100),
                 Calloc 2048 2 True, Stdout Msg_playing,
                 Test_running 1, Writei 7 (zeroed 2048) 1024 1024, Usleep 1000,
                 Stdout (Msg_received_signal SIGINT), Test_running 0,
                 Free, Stdout Msg_stopped, Drain 7, Close 7, Stdout Msg_cleaned_up,
                 Stdout Msg_terminated]\<rparr>)"
proof -
  have "running (playing (configured ''default'' 7)) = 1"
    and "Usleep 1000 \<notin> set (trace (playing (configured ''default'' 7)))"
    by (simp_all add: configured_def)
  from halting_while [OF this, of 0] have
    "play_silence_loop halting (configured ''default'' 7) =
       Some (emit (Stdout Msg_stopped) (emit Free
         ((playing (configured ''default'' 7))
            \<lparr>running := 0, trace := trace (playing (configured ''default'' 7)) @ one_write 7\<rparr>)))"
    by (simp add: play_silence_loop_def playing_def buffer_frames_def halting_def)
  with halting_init show ?thesis
    by (simp add: main_fn_unfold configured_def cleanup_alsa_def emit_def playing_def
        buffer_frames_def one_write_def)
qed


lemma endless_iteration:
  assumes "running s \<noteq> 0"
  shows "iteration endless b (ra, s) =
           (None, ra,
            s\<lparr>trace := trace s @ [Test_running (running s), Writei (pcm_handle s) b 1024 1024,
                                  Usleep 1000]\<rparr>)"
  using assms
  by (simp add: endless_def always_def iteration_def async_def loop_body_def emit_def buffer_frames_def)

lemma endless_rounds:
  "running s \<noteq> 0 \<Longrightarrow> fst (rounds n endless b (ra, s)) = None"
proof (induction n arbitrary: ra s)
  case 0
  show ?case by simp
next
  case (Suc n)
  let ?s = "s\<lparr>trace := trace s @ [Test_running (running s), Writei (pcm_handle s) b 1024 1024,
                                  Usleep 1000]\<rparr>"
  from Suc.prems have "running ?s \<noteq> 0" by simp
  from Suc.IH [OF this] endless_iteration [OF Suc.prems] show ?case by simp
qed

lemma endless_never_returns:
  assumes "running s \<noteq> 0"
  shows "play_silence_loop endless s = None"
proof (rule ccontr)
  assume "play_silence_loop endless s \<noteq> None"
  then obtain s' where "play_silence_loop endless s = Some s'" by auto
  then obtain n where u: "play_silence_upto n endless s = (True, s')"
    by (auto simp add: play_silence_loop_upto)
  let ?s = "emit (Stdout Msg_playing) (emit (Calloc (buffer_frames * 2) 2 True) s)"
  from assms have "running ?s \<noteq> 0" by simp
  from endless_rounds [OF this, of n "zeroed (nat (buffer_frames * 2))" 0] u show False
    by (auto simp add: play_silence_upto_def endless_def split: prod.splits option.splits)
qed

lemma endless_upto:
  "play_silence_upto (Suc (Suc 0)) endless ready =
     (False,
      \<lparr>running = 1, pcm_handle = 7,
       trace = [Calloc 2048 2 True, Stdout Msg_playing,
                Test_running 1, Writei 7 (zeroed 2048) 1024 1024, Usleep 1000,
                Test_running 1, Writei 7 (zeroed 2048) 1024 1024, Usleep 1000]\<rparr>)"
proof -
  let ?s = "emit (Stdout Msg_playing) (emit (Calloc 2048 2 True) ready)"
  have c: "calloc_succeeds endless" by (simp add: endless_def)
  have "running ?s \<noteq> 0" by (simp add: ready_def)
  then have "rounds (Suc (Suc 0)) endless (zeroed 2048) (0, ?s) =
      (None, 0,
       ?s\<lparr>trace := trace ?s @ [Test_running 1, Writei 7 (zeroed 2048) 1024 1024, Usleep 1000,
                                  Test_running 1, Writei 7 (zeroed 2048) 1024 1024, Usleep 1000]\<rparr>)"
    by (simp add: endless_iteration) (simp add: ready_def)
  with c show ?thesis
    by (simp add: play_silence_upto_def buffer_frames_def Let_def) (simp add: ready_def emit_def)
qed

lemma halting_loop:
  "play_silence_loop halting ready =
     Some \<lparr>running = 0, pcm_handle = 7,
           trace = [Calloc 2048 2 True, Stdout Msg_playing] @ one_write 7 @ [Free, Stdout Msg_stopped]\<rparr>"
proof -
  have "running (playing ready) = 1" and "Usleep 1000 \<notin> set (trace (playing ready))"
    by (simp_all add: ready_def)
  from halting_while [OF this, of 0] show ?thesis
    by (simp add: play_silence_loop_def playing_def buffer_frames_def halting_def ready_def emit_def)
qed

section \<open>The claims\<close>

subsection \<open>C1: the exit code after the loop\<close>

text \<open>
  C1, as stated, fails. With a device whose every write underruns and whose every
  re-prime fails, the loop gives up after three rounds (the trace shows
  \<open>Err_too_many_attempts\<close>), cleanup runs, and \<^verbatim>\<open>main\<close> returns 0, not a non-zero code.
\<close>

theorem aborted_run_exits_0:
  "main_fn stuck [''play_silence''] =
     Some (0,
       \<lparr>running = 1, pcm_handle = 0,
        trace = [Stdout Msg_banner, Install_handler SIGINT, Install_handler SIGTERM,
                 Pcm_open ''default'' 0 7, Hw_params_any 7 0, Set_access 7 0, Set_format 7 0,
                 Set_channels 7 2 0, Set_rate_near 7 44100 0, Hw_params 7 0,
                 Stdout (Msg_initialized ''default'' 44100),
                 Calloc 2048 2 True, Stdout Msg_playing,
                 Test_running 1, Writei 7 (zeroed 2048) 1024 (- 32), Stdout Warn_underrun,
                 Prepare 7 (- 1), Stderr Err_cannot_recover, Usleep 100000,
                 Test_running 1, Writei 7 (zeroed 2048) 1024 (- 32), Stdout Warn_underrun,
                 Prepare 7 (- 1), Stderr Err_cannot_recover, Usleep 100000,
                 Test_running 1, Writei 7 (zeroed 2048) 1024 (- 32), Stdout Warn_underrun,
                 Prepare 7 (- 1), Stderr Err_cannot_recover, Stderr Err_too_many_attempts,
                 Free, Stdout Msg_stopped, Drain 7, Close 7, Stdout Msg_cleaned_up,
                 Stdout Msg_terminated]\<rparr>)"
  by (rule stuck_main)

text \<open>
  C1, amended: once the device is configured and the buffer allocated, however the loop
  ends (\<open>x\<close> is \<open>STOPPED\<close> or \<open>ABORTED\<close>), the process frees the buffer, runs cleanup (drain
  and close when there is a handle) and exits with code 0.
\<close>

theorem exit_code_after_loop:
  assumes "length argv \<le> 2"
    and "\<not> (length argv = 2 \<and> (argv ! 1 = ''-h'' \<or> argv ! 1 = ''--help''))"
    and "init_alsa e (if length argv = 2 then argv ! 1 else ''default'') entry = (r, s1)"
    and "\<not> r < 0"
    and "calloc_succeeds e"
    and "while_running e (zeroed (nat (buffer_frames * 2))) (0, playing s1) = Some (x, ra, s2)"
  shows "\<exists>s. main_fn e argv = Some (0, s) \<and> pcm_handle s = 0
             \<and> trace s = trace s2 @ [Free, Stdout Msg_stopped]
                  @ (if pcm_handle s1 \<noteq> 0
                     then [Drain (pcm_handle s1), Close (pcm_handle s1), Stdout Msg_cleaned_up] else [])
                  @ [Stdout Msg_terminated]"
proof -
  let ?s = "emit (Stdout Msg_terminated) (cleanup_alsa (emit (Stdout Msg_stopped) (emit Free s2)))"
  from assms(5,6) have p: "play_silence_loop e s1 = Some (emit (Stdout Msg_stopped) (emit Free s2))"
    by (simp add: play_silence_loop_def playing_def)
  from assms(1-4) p have "main_fn e argv = Some (0, ?s)"
    by (auto simp add: main_fn_unfold)
  moreover from while_running_handle [OF assms(6)] have "pcm_handle s2 = pcm_handle s1"
    by simp
  then have "trace ?s = trace s2 @ [Free, Stdout Msg_stopped]
                  @ (if pcm_handle s1 \<noteq> 0
                     then [Drain (pcm_handle s1), Close (pcm_handle s1), Stdout Msg_cleaned_up] else [])
                  @ [Stdout Msg_terminated]"
    by (simp add: cleanup_alsa_trace)
  moreover have "pcm_handle ?s = 0" by (simp add: cleanup_alsa_trace)
  ultimately show ?thesis by blast
qed

theorem exit_code_after_loop_witness:
  "(\<exists>s. main_fn stuck [''play_silence''] = Some (0, s) \<and> pcm_handle s = 0
        \<and> trace s = trace (playing (configured ''default'' 7)) @ three_failures 7
             @ [Free, Stdout Msg_stopped, Drain 7, Close 7, Stdout Msg_cleaned_up, Stdout Msg_terminated])
   \<and> (\<exists>s. main_fn halting [''play_silence''] = Some (0, s) \<and> pcm_handle s = 0
        \<and> trace s = trace (playing (configured ''default'' 7)) @ one_write 7
             @ [Free, Stdout Msg_stopped, Drain 7, Close 7, Stdout Msg_cleaned_up, Stdout Msg_terminated])"
proof -
  have r: "running (playing (configured ''default'' 7)) = 1"
    and u: "Usleep 1000 \<notin> set (trace (playing (configured ''default'' 7)))"
    by (simp_all add: configured_def)
  have a: "while_running stuck (zeroed (nat (buffer_frames * 2))) (0, playing (configured ''default'' 7))
             = Some (ABORTED, 3, (playing (configured ''default'' 7))
                  \<lparr>trace := trace (playing (configured ''default'' 7)) @ three_failures 7\<rparr>)"
    using stuck_while [OF r] by (simp add: buffer_frames_def)
  have b: "while_running halting (zeroed (nat (buffer_frames * 2))) (0, playing (configured ''default'' 7))
             = Some (STOPPED, 0, (playing (configured ''default'' 7))
                  \<lparr>running := 0, trace := trace (playing (configured ''default'' 7)) @ one_write 7\<rparr>)"
    using halting_while [OF r u, of 0] by (simp add: buffer_frames_def)
  have i: "init_alsa stuck (if length [''play_silence''] = 2 then [''play_silence''] ! 1 else ''default'')
             entry = (0, configured ''default'' 7)"
    using stuck_init by simp
  have j: "init_alsa halting (if length [''play_silence''] = 2 then [''play_silence''] ! 1 else ''default'')
             entry = (0, configured ''default'' 7)"
    using halting_init by simp
  have "length [''play_silence''] \<le> 2"
    and "\<not> (length [''play_silence''] = 2
            \<and> ([''play_silence''] ! 1 = ''-h'' \<or> [''play_silence''] ! 1 = ''--help''))"
    and "\<not> (0::int) < 0"
    and "calloc_succeeds stuck" and "calloc_succeeds halting"
    by (simp_all add: stuck_def halting_def)
  from exit_code_after_loop [OF this(1,2) i this(3,4) a]
    exit_code_after_loop [OF this(1,2) j this(3,5) b]
  show ?thesis by simp
qed

subsection \<open>C2: when the counter goes back to 0\<close>

text \<open>
  C2, as stated, fails. The device is open as handle 7; the first write underruns and the
  re-prime fails (counter 1); the second write takes all 1024 frames, and after that round
  the counter is still 1, not 0.
\<close>

theorem full_write_keeps_counter:
  "rounds (Suc (Suc 0)) flaky (zeroed 2048) (0, ready) =
     (None, 1,
      \<lparr>running = 1, pcm_handle = 7,
       trace = [Test_running 1, Writei 7 (zeroed 2048) 1024 (- 32), Stdout Warn_underrun,
                Prepare 7 (- 1), Stderr Err_cannot_recover, Usleep 100000,
                Test_running 1, Writei 7 (zeroed 2048) 1024 1024, Usleep 1000]\<rparr>)"
  by (simp add: flaky_def recovers_late_def always_def iteration_def async_def loop_body_def emit_def
      ready_def buffer_frames_def EPIPE_def max_recovery_attempts_def)

text \<open>
  C2, amended: a round whose write takes the full \<^verbatim>\<open>buffer_frames\<close> leaves the counter as it
  is and goes on after the 1 ms pause; a round whose write underruns and whose re-prime
  succeeds sets the counter to 0 and goes on after the 1 ms pause.
\<close>

theorem counter_reset_on_recovery_only:
  "(snd_pcm_writei e (trace s) = buffer_frames \<longrightarrow>
      loop_body e b ra s =
        (Continue, ra,
         s\<lparr>trace := trace s @ [Writei (pcm_handle s) b buffer_frames buffer_frames, Usleep 1000]\<rparr>))
   \<and> (snd_pcm_writei e (trace s) = - EPIPE
        \<and> snd_pcm_prepare e (trace s @ [Writei (pcm_handle s) b buffer_frames (- EPIPE),
                                         Stdout Warn_underrun]) = r
        \<and> 0 \<le> r \<longrightarrow>
      loop_body e b ra s =
        (Continue, 0,
         s\<lparr>trace := trace s @ [Writei (pcm_handle s) b buffer_frames (- EPIPE), Stdout Warn_underrun,
                               Prepare (pcm_handle s) r, Usleep 1000]\<rparr>))"
  by (simp add: loop_body_def emit_def buffer_frames_def EPIPE_def)

theorem counter_reset_on_recovery_only_witness:
  "loop_body halting (zeroed 2048) 2 ready =
     (Continue, 2, \<lparr>running = 1, pcm_handle = 7,
                    trace = [Writei 7 (zeroed 2048) 1024 1024, Usleep 1000]\<rparr>)
   \<and> loop_body (world (0, 7) True (always (- 32)) (always 0) (always [])) (zeroed 2048) 2 ready =
     (Continue, 0, \<lparr>running = 1, pcm_handle = 7,
                    trace = [Writei 7 (zeroed 2048) 1024 (- 32), Stdout Warn_underrun,
                             Prepare 7 0, Usleep 1000]\<rparr>)"
  using counter_reset_on_recovery_only [of halting ready "zeroed 2048" 2 0]
    counter_reset_on_recovery_only
    [of "world (0, 7) True (always (- 32)) (always 0) (always [])" ready "zeroed 2048" 2 0]
  by (simp add: halting_def always_def ready_def buffer_frames_def EPIPE_def)

subsection \<open>C3: the ceiling of the counter\<close>



subsection \<open>C4: the handle is drained and closed once\<close>

text \<open>
  C4: in every run of the process that exits and in which \<^verbatim>\<open>snd_pcm_open\<close> left a non-null
  handle \<open>h\<close>, whatever the exit code, the handle is opened, drained and closed once each, in
  that order; \<^verbatim>\<open>pcm_handle\<close> is null at exit; and after the drain the process does nothing
  but close the handle and print.
\<close>

theorem handle_drained_and_closed_once:
  assumes "main_fn e argv = Some (code, s)" and "Pcm_open d err h \<in> set (trace s)" and "h \<noteq> 0"
  shows "filter session_event (trace s) = [Pcm_open d err h, Drain h, Close h]
         \<and> pcm_handle s = 0
         \<and> suffix ([Drain h, Close h, Stdout Msg_cleaned_up]
                   @ (if code = 0 then [Stdout Msg_terminated] else [])) (trace s)"
proof -
  from session_event_member [OF assms(2)]
  have m: "Pcm_open d err h \<in> set (filter session_event (trace s))" .
  have "filter session_event (trace s) \<noteq> []"
    using m by (auto simp del: set_filter)
  with main_fn_session [OF assms(1)] obtain d' err' h' where
    f: "filter session_event (trace s) = Pcm_open d' err' h' # (if h' \<noteq> 0 then [Drain h', Close h'] else [])"
    and p: "pcm_handle s = 0"
    and x: "h' \<noteq> 0 \<longrightarrow> suffix ([Drain h', Close h', Stdout Msg_cleaned_up]
                                      @ (if code = 0 then [Stdout Msg_terminated] else [])) (trace s)"
    by blast
  from m f have "d' = d \<and> err' = err \<and> h' = h"
    by (auto simp del: set_filter split: if_splits)
  with f p x assms(3) show ?thesis by simp
qed

theorem handle_drained_and_closed_once_witness:
  "filter session_event
     [Stdout Msg_banner, Install_handler SIGINT, Install_handler SIGTERM,
      Pcm_open ''default'' 0 7, Hw_params_any 7 0, Set_access 7 0, Set_format 7 0,
      Set_channels 7 2 0, Set_rate_near 7 44100 0, Hw_params 7 0,
      Stdout (Msg_initialized ''default'' 44100),
      Calloc 2048 2 True, Stdout Msg_playing,
      Test_running 1, Writei 7 (zeroed 2048) 1024 1024, Usleep 1000,
      Stdout (Msg_received_signal SIGINT), Test_running 0,
      Free, Stdout Msg_stopped, Drain 7, Close 7, Stdout Msg_cleaned_up,
      Stdout Msg_terminated]
   = [Pcm_open ''default'' 0 7, Drain 7, Close 7]"
  using handle_drained_and_closed_once [OF halting_main, of "''default''" 0 7]
  by simp

subsection \<open>C5: the run flag and the writes\<close>




subsection \<open>C6: the buffer of silence\<close>

text \<open>
  C6: at every point of a call of \<^verbatim>\<open>play_silence_loop\<close>, after any number of rounds of its
  loop and whether the call ever returns or not, the call has allocated exactly once, as the
  first thing it did and so before the loop; every write so far has passed the buffer that
  allocation gave, which holds \<^verbatim>\<open>buffer_frames * 2\<close> samples, all zero. The calls that return are
  those cut off after some number of rounds with the flag set, so the same holds of a call
  that has returned.
\<close>

theorem silence_buffer_all_zero:
  "(case play_silence_upto n e s of
      (returned, s') \<Rightarrow>
        take 1 (new_events s s') = [Calloc (buffer_frames * 2) 2 (calloc_succeeds e)]
        \<and> filter is_calloc (new_events s s') = [Calloc (buffer_frames * 2) 2 (calloc_succeeds e)]
        \<and> list_all (passes (zeroed (nat (buffer_frames * 2)))) (new_events s s')
        \<and> list_all silent_write (new_events s s'))
   \<and> (play_silence_loop e s = Some s1 \<longleftrightarrow> (\<exists>k. play_silence_upto k e s = (True, s1)))
   \<and> (play_silence_loop e s = Some s1 \<longrightarrow>
        take 1 (new_events s s1) = [Calloc (buffer_frames * 2) 2 (calloc_succeeds e)]
        \<and> filter is_calloc (new_events s s1) = [Calloc (buffer_frames * 2) 2 (calloc_succeeds e)]
        \<and> list_all (passes (zeroed (nat (buffer_frames * 2)))) (new_events s s1)
        \<and> list_all silent_write (new_events s s1))"
proof -
  have a: "take 1 (new_events s s') = [Calloc (buffer_frames * 2) 2 (calloc_succeeds e)]
        \<and> filter is_calloc (new_events s s') = [Calloc (buffer_frames * 2) 2 (calloc_succeeds e)]
        \<and> list_all (passes (zeroed (nat (buffer_frames * 2)))) (new_events s s')
        \<and> list_all silent_write (new_events s s')"
    if "play_silence_upto k e s = (returned, s')" for k returned s'
    using play_silence_upto_events [OF that] by (auto simp add: new_events_def)
  obtain returned s' where u: "play_silence_upto n e s = (returned, s')"
    by (cases "play_silence_upto n e s")
  have b: "play_silence_loop e s = Some s1 \<longleftrightarrow> (\<exists>k. play_silence_upto k e s = (True, s1))"
    by (rule play_silence_loop_upto)
  have c: "take 1 (new_events s s1) = [Calloc (buffer_frames * 2) 2 (calloc_succeeds e)]
        \<and> filter is_calloc (new_events s s1) = [Calloc (buffer_frames * 2) 2 (calloc_succeeds e)]
        \<and> list_all (passes (zeroed (nat (buffer_frames * 2)))) (new_events s s1)
        \<and> list_all silent_write (new_events s s1)"
    if "play_silence_loop e s = Some s1"
  proof -
    from that b obtain k where "play_silence_upto k e s = (True, s1)" by blast
    from a [OF this] show ?thesis .
  qed
  from a [OF u] u b c show ?thesis by simp
qed

theorem silence_buffer_all_zero_witness:
  "play_silence_loop endless ready = None
   \<and> fst (play_silence_upto (Suc (Suc 0)) endless ready) = False
   \<and> filter is_calloc (new_events ready (snd (play_silence_upto (Suc (Suc 0)) endless ready)))
       = [Calloc 2048 2 True]
   \<and> list_all (passes (zeroed 2048))
         (new_events ready (snd (play_silence_upto (Suc (Suc 0)) endless ready)))
   \<and> list_all silent_write
         (new_events ready (snd (play_silence_upto (Suc (Suc 0)) endless ready)))
   \<and> list_all silent_write (new_events ready (the (play_silence_loop halting ready)))
   \<and> filter is_calloc (new_events ready (the (play_silence_loop halting ready)))
       = [Calloc 2048 2 True]"
proof -
  have "running ready \<noteq> 0" by (simp add: ready_def)
  from endless_never_returns [OF this]
  have a: "play_silence_loop endless ready = None" .
  have b: "fst (play_silence_upto (Suc (Suc 0)) endless ready) = False"
    by (simp add: endless_upto)
  have e: "calloc_succeeds endless = True" and h: "calloc_succeeds halting = True"
    by (simp_all add: endless_def halting_def)
  have c: "filter is_calloc (new_events ready (snd (play_silence_upto (Suc (Suc 0)) endless ready)))
       = [Calloc 2048 2 True]
   \<and> list_all (passes (zeroed 2048))
         (new_events ready (snd (play_silence_upto (Suc (Suc 0)) endless ready)))
   \<and> list_all silent_write
         (new_events ready (snd (play_silence_upto (Suc (Suc 0)) endless ready)))"
    using silence_buffer_all_zero [where e = endless and s = ready and n = "Suc (Suc 0)"]
    by (simp add: case_prod_beta e buffer_frames_def)
  have d: "list_all silent_write (new_events ready (the (play_silence_loop halting ready)))
   \<and> filter is_calloc (new_events ready (the (play_silence_loop halting ready)))
       = [Calloc 2048 2 True]"
    using silence_buffer_all_zero [where e = halting and s = ready and n = 0
      and ?s1.0 = "the (play_silence_loop halting ready)"]
    by (simp add: halting_loop h buffer_frames_def)
  from a b c d show ?thesis by simp
qed

subsection \<open>C7: a partial write\<close>

text \<open>
  C7: a round whose write returns \<open>w\<close> frames, \<open>0 \<le> w < buffer_frames\<close>, makes that one write,
  prints the warning, pauses 1 ms and goes on to the next test of \<^verbatim>\<open>running\<close>, with the
  counter as it was; nothing is written again in that round.
\<close>

theorem partial_write_continues:
  assumes "snd_pcm_writei e (trace s) = w" and "0 \<le> w" and "w < buffer_frames"
  shows "loop_body e b ra s =
           (Continue, ra,
            s\<lparr>trace := trace s @ [Writei (pcm_handle s) b buffer_frames w,
                                  Stdout (Warn_partial_write w buffer_frames),
                                  Usleep 1000]\<rparr>)"
  using assms by (simp add: loop_body_def emit_def)

theorem partial_write_continues_witness:
  "loop_body (world (0, 7) True (always 512) (always 0) (always [])) (zeroed 2048) 2 ready =
     (Continue, 2,
      \<lparr>running = 1, pcm_handle = 7,
       trace = [Writei 7 (zeroed 2048) 1024 512, Stdout (Warn_partial_write 512 1024), Usleep 1000]\<rparr>)"
  using partial_write_continues
    [of "world (0, 7) True (always 512) (always 0) (always [])" ready 512 "zeroed 2048" 2]
  by (simp add: ready_def buffer_frames_def always_def)

subsection \<open>C8: cleanup is idempotent\<close>

text \<open>
  C8: \<^verbatim>\<open>cleanup_alsa\<close> called a second time changes nothing; called with a null handle it
  changes nothing; after it the handle is null; and with a handle it drains, closes and
  reports, in that order.
\<close>

theorem cleanup_alsa_idempotent:
  "cleanup_alsa (cleanup_alsa s) = cleanup_alsa s
   \<and> pcm_handle (cleanup_alsa s) = 0
   \<and> (pcm_handle s = 0 \<longrightarrow> cleanup_alsa s = s)
   \<and> (pcm_handle s \<noteq> 0 \<longrightarrow>
        trace (cleanup_alsa s) = trace s @ [Drain (pcm_handle s), Close (pcm_handle s), Stdout Msg_cleaned_up])"
  by (simp add: cleanup_alsa_def)

theorem cleanup_alsa_idempotent_witness:
  "cleanup_alsa initial = initial
   \<and> trace (cleanup_alsa ready) = [Drain 7, Close 7, Stdout Msg_cleaned_up]
   \<and> cleanup_alsa (cleanup_alsa ready) = cleanup_alsa ready
   \<and> pcm_handle (cleanup_alsa ready) = 0"
  using cleanup_alsa_idempotent [of initial] cleanup_alsa_idempotent [of ready]
  by (simp add: initial_def ready_def)

subsection \<open>C9: the device cannot be opened\<close>

text \<open>
  C9: when \<^verbatim>\<open>snd_pcm_open\<close> fails for the device named on the command line (or for
  \<^verbatim>\<open>default\<close>), \<^verbatim>\<open>init_alsa\<close> returns \<open>-1\<close> right after the message that the device cannot be
  opened, no other library call of the configuration is made, the loop is never entered (no
  test of \<^verbatim>\<open>running\<close>, no write), and the process exits with code 1.
\<close>

theorem open_failure_exits_1:
  assumes "length argv \<le> 2"
    and "\<not> (length argv = 2 \<and> (argv ! 1 = ''-h'' \<or> argv ! 1 = ''--help''))"
    and "d = (if length argv = 2 then argv ! 1 else ''default'')"
    and "snd_pcm_open e d = (err, h)"
    and "err < 0"
  shows "init_alsa e d entry =
           (- 1, entry\<lparr>pcm_handle := h,
                       trace := trace entry @ [Pcm_open d err h, Stderr (Err_cannot_open d err)]\<rparr>)
         \<and> (\<exists>s. main_fn e argv = Some (1, s)
                \<and> trace s = [Stdout Msg_banner, Install_handler SIGINT, Install_handler SIGTERM,
                             Pcm_open d err h, Stderr (Err_cannot_open d err)]
                            @ (if h \<noteq> 0 then [Drain h, Close h, Stdout Msg_cleaned_up] else [])
                \<and> filter is_loop_step (trace s) = [])"
proof -
  note i = init_alsa_open_fails [OF assms(4,5), of entry]
  let ?s = "cleanup_alsa (entry\<lparr>pcm_handle := h,
                       trace := trace entry @ [Pcm_open d err h, Stderr (Err_cannot_open d err)]\<rparr>)"
  from assms(1-3) i have "main_fn e argv = Some (1, ?s)"
    by (auto simp add: main_fn_unfold)
  moreover have "trace ?s = [Stdout Msg_banner, Install_handler SIGINT, Install_handler SIGTERM,
                             Pcm_open d err h, Stderr (Err_cannot_open d err)]
                            @ (if h \<noteq> 0 then [Drain h, Close h, Stdout Msg_cleaned_up] else [])"
    by (simp add: cleanup_alsa_trace)
  moreover from this have "filter is_loop_step (trace ?s) = []"
    by simp
  ultimately show ?thesis using i by blast
qed

theorem open_failure_exits_1_witness:
  "\<exists>s. main_fn no_device [''play_silence'', ''hw:9,9''] = Some (1, s)
       \<and> trace s = [Stdout Msg_banner, Install_handler SIGINT, Install_handler SIGTERM,
                    Pcm_open ''hw:9,9'' (- 2) 0, Stderr (Err_cannot_open ''hw:9,9'' (- 2))]
       \<and> filter is_loop_step (trace s) = []"
proof -
  have "length [''play_silence'', ''hw:9,9''] \<le> 2"
    and "\<not> (length [''play_silence'', ''hw:9,9''] = 2
            \<and> ([''play_silence'', ''hw:9,9''] ! 1 = ''-h'' \<or> [''play_silence'', ''hw:9,9''] ! 1 = ''--help''))"
    and "''hw:9,9'' = (if length [''play_silence'', ''hw:9,9''] = 2
                       then [''play_silence'', ''hw:9,9''] ! 1 else ''default'')"
    and "snd_pcm_open no_device ''hw:9,9'' = (- 2, 0)"
    and "(- 2 :: int) < 0"
    by (simp_all add: no_device_def)
  from open_failure_exits_1 [OF this] show ?thesis by simp
qed

subsection \<open>C10: the buffer cannot be allocated\<close>

text \<open>
  C10: when the device is configured and \<^verbatim>\<open>calloc\<close> fails, \<^verbatim>\<open>play_silence_loop\<close> returns right
  after its message, the loop is never entered (no test of \<^verbatim>\<open>running\<close>, no write), the
  handle, when there is one, is drained and closed, and the process exits with code 0.
\<close>

theorem alloc_failure_exits_0:
  assumes "length argv \<le> 2"
    and "\<not> (length argv = 2 \<and> (argv ! 1 = ''-h'' \<or> argv ! 1 = ''--help''))"
    and "init_alsa e (if length argv = 2 then argv ! 1 else ''default'') entry = (r, s1)"
    and "\<not> r < 0"
    and "\<not> calloc_succeeds e"
  shows "play_silence_loop e s1 =
           Some (s1\<lparr>trace := trace s1 @ [Calloc (buffer_frames * 2) 2 False, Stderr Err_cannot_allocate]\<rparr>)
         \<and> (\<exists>s. main_fn e argv = Some (0, s) \<and> pcm_handle s = 0
                \<and> trace s = trace s1 @ [Calloc (buffer_frames * 2) 2 False, Stderr Err_cannot_allocate]
                     @ (if pcm_handle s1 \<noteq> 0
                        then [Drain (pcm_handle s1), Close (pcm_handle s1), Stdout Msg_cleaned_up] else [])
                     @ [Stdout Msg_terminated]
                \<and> filter is_loop_step (trace s) = [])"
proof -
  let ?s2 = "s1\<lparr>trace := trace s1 @ [Calloc (buffer_frames * 2) 2 False, Stderr Err_cannot_allocate]\<rparr>"
  let ?s = "emit (Stdout Msg_terminated) (cleanup_alsa ?s2)"
  from assms(5) have p: "play_silence_loop e s1 = Some ?s2"
    by (simp add: play_silence_loop_def emit_def)
  from assms(1-4) p have m: "main_fn e argv = Some (0, ?s)"
    by (auto simp add: main_fn_unfold)
  have t: "trace ?s = trace s1 @ [Calloc (buffer_frames * 2) 2 False, Stderr Err_cannot_allocate]
                     @ (if pcm_handle s1 \<noteq> 0
                        then [Drain (pcm_handle s1), Close (pcm_handle s1), Stdout Msg_cleaned_up] else [])
                     @ [Stdout Msg_terminated]"
    by (simp add: cleanup_alsa_trace)
  from init_alsa_no_loop_step [OF assms(3)] have "filter is_loop_step (trace s1) = []"
    by simp
  with t have "filter is_loop_step (trace ?s) = []" by simp
  moreover have "pcm_handle ?s = 0" by (simp add: cleanup_alsa_trace)
  ultimately show ?thesis using p m t by blast
qed

theorem alloc_failure_exits_0_witness:
  "\<exists>s. main_fn no_memory [''play_silence''] = Some (0, s) \<and> pcm_handle s = 0
       \<and> trace s = trace (configured ''default'' 7)
            @ [Calloc 2048 2 False, Stderr Err_cannot_allocate, Drain 7, Close 7,
               Stdout Msg_cleaned_up, Stdout Msg_terminated]
       \<and> filter is_loop_step (trace s) = []"
proof -
  have "length [''play_silence''] \<le> 2"
    and "\<not> (length [''play_silence''] = 2
            \<and> ([''play_silence''] ! 1 = ''-h'' \<or> [''play_silence''] ! 1 = ''--help''))"
    and "init_alsa no_memory (if length [''play_silence''] = 2 then [''play_silence''] ! 1 else ''default'')
           entry = (0, configured ''default'' 7)"
    and "\<not> (0::int) < 0"
    and "\<not> calloc_succeeds no_memory"
    by (simp_all add: no_memory_def init_alsa_world)
  from alloc_failure_exits_0 [OF this] show ?thesis
    by (simp add: buffer_frames_def)
qed

end
